theory Spec2Isabelle
  imports Main "HOL-Library.Word"
begin

section \<open>The data shapes of customer.go\<close>

text \<open>
  Go strings are byte strings: \<^typ>\<open>string\<close>. A \<^verbatim>\<open>float64\<close> is carried as its 64 bits
  and a \<^verbatim>\<open>time.Time\<close> as the three fields of the standard library's struct (two
  words and a location pointer); the code of this file never computes with either, it
  only moves them. A pointer is an \<^typ>\<open>'a option\<close>, \<^term>\<open>None\<close> being \<^verbatim>\<open>nil\<close>. The struct
  \<^verbatim>\<open>Merchant\<close> is declared in another file of the package: the type variable \<open>'m\<close>
  stands for the identity of a Merchant value, so that \<^verbatim>\<open>*Merchant\<close> is \<open>'m option\<close>.
\<close>

type_synonym float64 = "64 word"

datatype Time = Time (wall: "64 word") (ext: "64 word") (loc: "nat option")

record Address =
  Line1 :: string
  Line2 :: string
  Line3 :: string
  PostalCode :: string
  State :: string
  City :: string
  CountryCode :: string

record StoreReference =
  Reference :: string
  BarcodeURL :: string
  PaybinReference :: string
  BarcodePaybinURL :: string

record CustomerArgs =
  ExternalID :: string
  Name :: string
  LastName :: string
  Email :: string
  RequiresAccount :: bool
  PhoneNumber :: string
  Address :: Address

record 'm Customer =
  ID :: string
  CreationDate :: Time
  Name :: string
  LastName :: string
  Email :: string
  PhoneNumber :: string
  Status :: string
  Balance :: float64
  CLABE :: string
  Address :: Address
  Store :: StoreReference
  Merchant :: "'m option"

text \<open>The zero values Go gives a declared variable (\<^verbatim>\<open>var customer Customer\<close>).\<close>

definition zeroTime :: Time where
  "zeroTime = Time 0 0 None"

definition zeroAddress :: Address where
  "zeroAddress = \<lparr>Line1 = [], Line2 = [], Line3 = [], PostalCode = [], State = [],
     City = [], CountryCode = []\<rparr>"

definition zeroStoreReference :: StoreReference where
  "zeroStoreReference = \<lparr>Reference = [], BarcodeURL = [], PaybinReference = [],
     BarcodePaybinURL = []\<rparr>"

definition zeroCustomer :: "'m Customer" where
  "zeroCustomer = \<lparr>ID = [], CreationDate = zeroTime, Name = [], LastName = [], Email = [],
     PhoneNumber = [], Status = [], Balance = 0, CLABE = [], Address = zeroAddress,
     Store = zeroStoreReference, Merchant = None\<rparr>"

section \<open>The collaborator: \<^verbatim>\<open>m.client\<close> with \<^verbatim>\<open>newRequest\<close> and \<^verbatim>\<open>perform\<close>\<close>

text \<open>
  The values the operations pass for \<^verbatim>\<open>data interface{}\<close> and \<^verbatim>\<open>dst interface{}\<close>.
  A body is \<^verbatim>\<open>nil\<close>, the \<^verbatim>\<open>*CustomerArgs\<close> of AddCustomer (which passes the address of
  that pointer; the value denoted is the same), the \<^verbatim>\<open>*Customer\<close> of UpdateCustomer, or
  whatever the caller of ChargeCustomer supplies (\<open>'d\<close>). A destination is \<^verbatim>\<open>nil\<close> or a
  pointer to a variable; the model carries the variable's content, which \<^verbatim>\<open>perform\<close>
  can read and overwrite.
\<close>

datatype ('m, 'd) body =
    BodyNil
  | BodyCustomerArgs "CustomerArgs option"
  | BodyCustomer "'m Customer option"
  | BodyOther 'd

datatype ('m, 'o) dst =
    DstNil
  | DstCustomer "'m Customer"
  | DstCustomers "'m Customer list"
  | DstOther 'o

text \<open>
  \<^verbatim>\<open>newRequest(verb, path, body)\<close> returns a request or an error;
  \<^verbatim>\<open>perform(req, dst)\<close> returns an error or \<^verbatim>\<open>nil\<close> and may have written to the
  destination. Both are defined outside customer.go, so they are parameters: any
  functions of the collaborator's state \<open>'w\<close> (connection, remote server). \<open>'req\<close> is the
  request type and \<open>'e\<close> the type of error values.
\<close>

record ('m, 'req, 'd, 'o, 'e, 'w) Client =
  newRequest :: "string \<Rightarrow> string \<Rightarrow> ('m, 'd) body \<Rightarrow> 'w \<Rightarrow> ('e + 'req) \<times> 'w"
  perform :: "'req \<Rightarrow> ('m, 'o) dst \<Rightarrow> 'w \<Rightarrow> ('e option \<times> ('m, 'o) dst) \<times> 'w"

text \<open>
  The state threaded through an operation: the collaborator's own state and the list
  of calls made to the collaborator so far, oldest first.
\<close>

datatype ('m, 'req, 'd, 'o) event =
    NewRequest string string "('m, 'd) body"
  | Perform 'req "('m, 'o) dst"

record ('m, 'req, 'd, 'o, 'w) state =
  trace :: "('m, 'req, 'd, 'o) event list"
  world :: 'w

definition client_newRequest ::
  "('m, 'req, 'd, 'o, 'e, 'w) Client \<Rightarrow> string \<Rightarrow> string \<Rightarrow> ('m, 'd) body \<Rightarrow>
   ('m, 'req, 'd, 'o, 'w) state \<Rightarrow> ('e + 'req) \<times> ('m, 'req, 'd, 'o, 'w) state" where
  "client_newRequest cl verb path data s =
     (case newRequest cl verb path data (world s) of
        (r, w') \<Rightarrow> (r, \<lparr>trace = trace s @ [NewRequest verb path data], world = w'\<rparr>))"

definition client_perform ::
  "('m, 'req, 'd, 'o, 'e, 'w) Client \<Rightarrow> 'req \<Rightarrow> ('m, 'o) dst \<Rightarrow>
   ('m, 'req, 'd, 'o, 'w) state \<Rightarrow>
   ('e option \<times> ('m, 'o) dst) \<times> ('m, 'req, 'd, 'o, 'w) state" where
  "client_perform cl req d s =
     (case perform cl req d (world s) of
        (r, w') \<Rightarrow> (r, \<lparr>trace = trace s @ [Perform req d], world = w'\<rparr>))"

section \<open>The operations\<close>

text \<open>
  A method with a pointer receiver can be called on \<^verbatim>\<open>nil\<close>; the first read of a field
  through it then panics. An operation either panics or returns.
\<close>

datatype panic = NilPointerDereference

datatype 'a outcome = Panics panic | Returns 'a

text \<open>
  What a variable holds after \<^verbatim>\<open>perform\<close> was given its address: a value of the
  variable's type that was written there, else what it held before.
\<close>

definition readCustomer :: "('m, 'o) dst \<Rightarrow> 'm Customer \<Rightarrow> 'm Customer" where
  "readCustomer d held = (case d of DstCustomer c \<Rightarrow> c | _ \<Rightarrow> held)"

definition readCustomers :: "('m, 'o) dst \<Rightarrow> 'm Customer list \<Rightarrow> 'm Customer list" where
  "readCustomers d held = (case d of DstCustomers cs \<Rightarrow> cs | _ \<Rightarrow> held)"

text \<open>
  \<^verbatim>\<open>performCustomerOperation\<close> (lines 170-180). The first parameter \<open>client\<close> is the field
  read \<^verbatim>\<open>m.client\<close> at a Merchant that exists. The result is the returned error
  (\<^term>\<open>None\<close> is \<^verbatim>\<open>nil\<close>) with the content of the destination after the call.
\<close>

definition performCustomerOperation ::
  "('m \<Rightarrow> ('m, 'req, 'd, 'o, 'e, 'w) Client) \<Rightarrow> 'm option \<Rightarrow> string \<Rightarrow> string \<Rightarrow>
   ('m, 'd) body \<Rightarrow> ('m, 'o) dst \<Rightarrow> ('m, 'req, 'd, 'o, 'w) state \<Rightarrow>
   ('e option \<times> ('m, 'o) dst) outcome \<times> ('m, 'req, 'd, 'o, 'w) state" where
  "performCustomerOperation client m verb id' data d s =
     (case m of
        None \<Rightarrow> (Panics NilPointerDereference, s)
      | Some mr \<Rightarrow>
          (case client_newRequest (client mr) verb (''customers/'' @ id') data s of
             (Inl err, s1) \<Rightarrow> (Returns (Some err, d), s1)
           | (Inr req, s1) \<Rightarrow>
               (case client_perform (client mr) req d s1 of
                  ((Some err, d'), s2) \<Rightarrow> (Returns (Some err, d'), s2)
                | ((None, d'), s2) \<Rightarrow> (Returns (None, d'), s2))))"

text \<open>
  \<^verbatim>\<open>AddCustomer\<close> (lines 111-123). The result pair is Go's \<^verbatim>\<open>(*Customer, error)\<close>.
\<close>

definition AddCustomer ::
  "('m \<Rightarrow> ('m, 'req, 'd, 'o, 'e, 'w) Client) \<Rightarrow> 'm option \<Rightarrow> CustomerArgs option \<Rightarrow>
   ('m, 'req, 'd, 'o, 'w) state \<Rightarrow>
   ('m Customer option \<times> 'e option) outcome \<times> ('m, 'req, 'd, 'o, 'w) state" where
  "AddCustomer client m args s =
     (case m of
        None \<Rightarrow> (Panics NilPointerDereference, s)
      | Some mr \<Rightarrow>
          (case client_newRequest (client mr) ''POST'' ''customers'' (BodyCustomerArgs args) s of
             (Inl err, s1) \<Rightarrow> (Returns (None, Some err), s1)
           | (Inr req, s1) \<Rightarrow>
               (case client_perform (client mr) req (DstCustomer zeroCustomer) s1 of
                  ((Some err, d'), s2) \<Rightarrow> (Returns (None, Some err), s2)
                | ((None, d'), s2) \<Rightarrow>
                    (Returns (Some ((readCustomer d' zeroCustomer)\<lparr>Merchant := m\<rparr>), None),
                     s2))))"

text \<open>
  The loop of \<^verbatim>\<open>GetCustomers\<close> (lines 135-137): \<^verbatim>\<open>range\<close> reads the length once and the
  index runs from 0 to the length minus one.
\<close>

definition GetCustomers_loop :: "'m option \<Rightarrow> 'm Customer list \<Rightarrow> 'm Customer list" where
  "GetCustomers_loop m customers =
     fold (\<lambda>i cs. cs[i := (cs ! i)\<lparr>Merchant := m\<rparr>]) [0..<length customers] customers"

text \<open>
  \<^verbatim>\<open>GetCustomers\<close> (lines 126-139). A slice is a list; the \<^verbatim>\<open>nil\<close> slice is the empty
  list.
\<close>

definition GetCustomers ::
  "('m \<Rightarrow> ('m, 'req, 'd, 'o, 'e, 'w) Client) \<Rightarrow> 'm option \<Rightarrow>
   ('m, 'req, 'd, 'o, 'w) state \<Rightarrow>
   ('m Customer list \<times> 'e option) outcome \<times> ('m, 'req, 'd, 'o, 'w) state" where
  "GetCustomers client m s =
     (case m of
        None \<Rightarrow> (Panics NilPointerDereference, s)
      | Some mr \<Rightarrow>
          (case client_newRequest (client mr) ''GET'' ''customers'' BodyNil s of
             (Inl err, s1) \<Rightarrow> (Returns ([], Some err), s1)
           | (Inr req, s1) \<Rightarrow>
               (case client_perform (client mr) req (DstCustomers []) s1 of
                  ((Some err, d'), s2) \<Rightarrow> (Returns ([], Some err), s2)
                | ((None, d'), s2) \<Rightarrow>
                    (Returns (GetCustomers_loop m (readCustomers d' []), None), s2))))"

text \<open>\<^verbatim>\<open>GetCustomer\<close> (lines 142-149).\<close>

definition GetCustomer ::
  "('m \<Rightarrow> ('m, 'req, 'd, 'o, 'e, 'w) Client) \<Rightarrow> 'm option \<Rightarrow> string \<Rightarrow>
   ('m, 'req, 'd, 'o, 'w) state \<Rightarrow>
   ('m Customer option \<times> 'e option) outcome \<times> ('m, 'req, 'd, 'o, 'w) state" where
  "GetCustomer client m id' s =
     (case performCustomerOperation client m ''GET'' id' BodyNil (DstCustomer zeroCustomer) s of
        (Panics p, s1) \<Rightarrow> (Panics p, s1)
      | (Returns (Some err, d'), s1) \<Rightarrow> (Returns (None, Some err), s1)
      | (Returns (None, d'), s1) \<Rightarrow>
          (Returns (Some ((readCustomer d' zeroCustomer)\<lparr>Merchant := m\<rparr>), None), s1))"

text \<open>\<^verbatim>\<open>UpdateCustomer\<close> (lines 152-159); \<open>data\<close> is a \<^verbatim>\<open>*Customer\<close>.\<close>

definition UpdateCustomer ::
  "('m \<Rightarrow> ('m, 'req, 'd, 'o, 'e, 'w) Client) \<Rightarrow> 'm option \<Rightarrow> string \<Rightarrow>
   'm Customer option \<Rightarrow> ('m, 'req, 'd, 'o, 'w) state \<Rightarrow>
   ('m Customer option \<times> 'e option) outcome \<times> ('m, 'req, 'd, 'o, 'w) state" where
  "UpdateCustomer client m id' data s =
     (case performCustomerOperation client m ''PUT'' id' (BodyCustomer data)
             (DstCustomer zeroCustomer) s of
        (Panics p, s1) \<Rightarrow> (Panics p, s1)
      | (Returns (Some err, d'), s1) \<Rightarrow> (Returns (None, Some err), s1)
      | (Returns (None, d'), s1) \<Rightarrow>
          (Returns (Some ((readCustomer d' zeroCustomer)\<lparr>Merchant := m\<rparr>), None), s1))"

text \<open>\<^verbatim>\<open>DeleteCustomer\<close> (lines 162-164): only the error is returned.\<close>

definition DeleteCustomer ::
  "('m \<Rightarrow> ('m, 'req, 'd, 'o, 'e, 'w) Client) \<Rightarrow> 'm option \<Rightarrow> string \<Rightarrow>
   ('m, 'req, 'd, 'o, 'w) state \<Rightarrow> 'e option outcome \<times> ('m, 'req, 'd, 'o, 'w) state" where
  "DeleteCustomer client m id' s =
     (case performCustomerOperation client m ''DELETE'' id' BodyNil DstNil s of
        (Panics p, s1) \<Rightarrow> (Panics p, s1)
      | (Returns (err, d'), s1) \<Rightarrow> (Returns err, s1))"

text \<open>
  \<^verbatim>\<open>ChargeCustomer\<close> (lines 166-168), a method of \<^verbatim>\<open>*Customer\<close>: \<^verbatim>\<open>c.ID\<close> and
  \<^verbatim>\<open>c.Merchant\<close> are read through the receiver. The destination is the caller's, so
  its content after the call is part of the result.
\<close>

definition ChargeCustomer ::
  "('m \<Rightarrow> ('m, 'req, 'd, 'o, 'e, 'w) Client) \<Rightarrow> 'm Customer option \<Rightarrow> ('m, 'd) body \<Rightarrow>
   ('m, 'o) dst \<Rightarrow> ('m, 'req, 'd, 'o, 'w) state \<Rightarrow>
   ('e option \<times> ('m, 'o) dst) outcome \<times> ('m, 'req, 'd, 'o, 'w) state" where
  "ChargeCustomer client c data d s =
     (case c of
        None \<Rightarrow> (Panics NilPointerDereference, s)
      | Some cv \<Rightarrow>
          performCustomerOperation client (Merchant cv) ''POST'' (ID cv @ ''/charges'') data d s)"

section \<open>The wire encoding of the request bodies\<close>

text \<open>
  The field tags of customer.go are \<^verbatim>\<open>json\<close> tags: they are read by the standard
  library's \<^verbatim>\<open>encoding/json\<close>, which decides from a struct's declaration which members
  the encoded object has. A struct value is presented the way that encoder sees it: the
  list of its fields in declaration order, each with its Go name, the text of its
  \<^verbatim>\<open>json\<close> tag (empty when the field has none) and its value.
\<close>

datatype gov =
    GoString string
  | GoBool bool
  | GoFloat64 float64
  | GoTime Time
  | GoNilPtr
  | GoPtr gov
  | GoStruct "(string \<times> string \<times> gov) list"

text \<open>
  The encoded document as a tree, as written when encoding succeeds: the encoder
  returns an error, and writes nothing, for a \<^verbatim>\<open>float64\<close> that is NaN or infinite and
  for a time whose year is outside 0..9999. The text of a number and of a time (an
  RFC 3339 string) is not spelled out: the leaf keeps the value. A string leaf keeps
  the bytes of the Go string; in the text written, the encoder escapes some characters
  and replaces bytes that are not valid UTF-8. None of this changes which members an
  object has.
\<close>

datatype json =
    JNull
  | JBool bool
  | JString string
  | JNumber float64
  | JTime Time
  | JObject "(string \<times> json) list"

text \<open>
  The tag \<^verbatim>\<open>name,opt1,opt2\<close>: the name is the text before the first comma, the options
  are the comma-separated rest.
\<close>

fun splitComma :: "string \<Rightarrow> string list" where
  "splitComma [] = [[]]"
| "splitComma (c # cs) =
     (if c = CHR '','' then [] # splitComma cs
      else (case splitComma cs of [] \<Rightarrow> [[c]] | x # xs \<Rightarrow> (c # x) # xs))"

definition tagName :: "string \<Rightarrow> string" where
  "tagName tag = takeWhile (\<lambda>c. c \<noteq> CHR '','') tag"

definition tagOptions :: "string \<Rightarrow> string list" where
  "tagOptions tag =
     (case dropWhile (\<lambda>c. c \<noteq> CHR '','') tag of [] \<Rightarrow> [] | _ # rest \<Rightarrow> splitComma rest)"

definition omitEmpty :: "string \<Rightarrow> bool" where
  "omitEmpty tag = (''omitempty'' \<in> set (tagOptions tag))"

text \<open>
  A name given in a tag is used when it is not empty and made of letters, digits and
  some punctuation (here: of ASCII); otherwise the key is the Go field name. Only
  exported fields (upper-case first letter) are encoded.
\<close>

definition validTagChar :: "char \<Rightarrow> bool" where
  "validTagChar c =
     (c \<in> set ''abcdefghijklmnopqrstuvwxyzABCDEFGHIJKLMNOPQRSTUVWXYZ0123456789'' \<or>
      c \<in> set ''!#$%&()*+-./:;<=>?@[]^_{|}~ '')"

definition jsonKey :: "string \<Rightarrow> string \<Rightarrow> string" where
  "jsonKey name tag =
     (if tagName tag \<noteq> [] \<and> list_all validTagChar (tagName tag) then tagName tag else name)"

definition exported :: "string \<Rightarrow> bool" where
  "exported name =
     (case name of [] \<Rightarrow> False | c # _ \<Rightarrow> c \<in> set ''ABCDEFGHIJKLMNOPQRSTUVWXYZ'')"

text \<open>
  The values \<^verbatim>\<open>omitempty\<close> leaves out: false, 0, a nil pointer and the empty string
  (also empty arrays, slices and maps and nil interfaces, which no field of this file
  has). A struct value is never one of them, whatever its fields hold.
\<close>

fun isEmptyValue :: "gov \<Rightarrow> bool" where
  "isEmptyValue (GoString s) = (s = [])"
| "isEmptyValue (GoBool b) = (\<not> b)"
| "isEmptyValue (GoFloat64 x) = (x = 0)"
| "isEmptyValue (GoTime t) = False"
| "isEmptyValue GoNilPtr = True"
| "isEmptyValue (GoPtr v) = False"
| "isEmptyValue (GoStruct fs) = False"

text \<open>
  The encoder. A field is left out when it is not exported, when its tag is \<^verbatim>\<open>-\<close>, or
  when its tag has \<^verbatim>\<open>omitempty\<close> and its value is empty; every other field becomes a
  member. A pointer encodes as what it points to, the nil pointer as \<^verbatim>\<open>null\<close>. (No two
  fields of a struct of this file get the same key, so the encoder's rule for
  ambiguous keys is never used.)
\<close>

fun marshal :: "gov \<Rightarrow> json"
  and marshalFields :: "(string \<times> string \<times> gov) list \<Rightarrow> (string \<times> json) list" where
  "marshal (GoString s) = JString s"
| "marshal (GoBool b) = JBool b"
| "marshal (GoFloat64 x) = JNumber x"
| "marshal (GoTime t) = JTime t"
| "marshal GoNilPtr = JNull"
| "marshal (GoPtr v) = marshal v"
| "marshal (GoStruct fs) = JObject (marshalFields fs)"
| "marshalFields [] = []"
| "marshalFields ((name, tag, v) # fs) =
     (if \<not> exported name \<or> tag = ''-'' \<or> (omitEmpty tag \<and> isEmptyValue v)
      then marshalFields fs
      else (jsonKey name tag, marshal v) # marshalFields fs)"

definition members :: "json \<Rightarrow> (string \<times> json) list" where
  "members j = (case j of JObject ms \<Rightarrow> ms | _ \<Rightarrow> [])"

definition keys :: "json \<Rightarrow> string list" where
  "keys j = map fst (members j)"

text \<open>The struct declarations of customer.go, field by field with their tags.\<close>

definition goAddress :: "Address \<Rightarrow> gov" where
  "goAddress a = GoStruct
     [(''Line1'', ''line1'', GoString (Line1 a)),
      (''Line2'', ''line2'', GoString (Line2 a)),
      (''Line3'', ''line3'', GoString (Line3 a)),
      (''PostalCode'', ''postal_code'', GoString (PostalCode a)),
      (''State'', ''state'', GoString (State a)),
      (''City'', ''city'', GoString (City a)),
      (''CountryCode'', ''country_code'', GoString (CountryCode a))]"

definition goStoreReference :: "StoreReference \<Rightarrow> gov" where
  "goStoreReference r = GoStruct
     [(''Reference'', ''reference'', GoString (Reference r)),
      (''BarcodeURL'', ''barcode_url'', GoString (BarcodeURL r)),
      (''PaybinReference'', ''paybin_reference'', GoString (PaybinReference r)),
      (''BarcodePaybinURL'', ''barcode_paybin_url'', GoString (BarcodePaybinURL r))]"

definition goCustomerArgs :: "CustomerArgs \<Rightarrow> gov" where
  "goCustomerArgs a = GoStruct
     [(''ExternalID'', ''external_id,omitempty'', GoString (ExternalID a)),
      (''Name'', ''name'', GoString (CustomerArgs.Name a)),
      (''LastName'', ''last_name,omitempty'', GoString (CustomerArgs.LastName a)),
      (''Email'', ''email'', GoString (CustomerArgs.Email a)),
      (''RequiresAccount'', ''requires_acount'', GoBool (RequiresAccount a)),
      (''PhoneNumber'', ''phone_number,omitempty'', GoString (CustomerArgs.PhoneNumber a)),
      (''Address'', ''address,omitempty'', goAddress (CustomerArgs.Address a))]"

text \<open>
  \<^verbatim>\<open>Customer\<close>: its last field, \<^verbatim>\<open>Merchant *Merchant\<close>, is declared without a tag. What a
  Merchant struct looks like to the encoder is not in this file: \<open>merchantValue\<close> gives
  it.
\<close>

definition goCustomer :: "('m \<Rightarrow> gov) \<Rightarrow> 'm Customer \<Rightarrow> gov" where
  "goCustomer merchantValue c = GoStruct
     [(''ID'', ''id,omitempty'', GoString (ID c)),
      (''CreationDate'', ''creation_date'', GoTime (CreationDate c)),
      (''Name'', ''name'', GoString (Name c)),
      (''LastName'', ''last_name'', GoString (LastName c)),
      (''Email'', ''email'', GoString (Email c)),
      (''PhoneNumber'', ''phone_number'', GoString (PhoneNumber c)),
      (''Status'', ''status'', GoString (Status c)),
      (''Balance'', ''balance'', GoFloat64 (Balance c)),
      (''CLABE'', ''clabe'', GoString (CLABE c)),
      (''Address'', ''address'', goAddress (Address c)),
      (''Store'', ''store'', goStoreReference (Store c)),
      (''Merchant'', [],
         (case Merchant c of None \<Rightarrow> GoNilPtr | Some m \<Rightarrow> GoPtr (merchantValue m)))]"

section \<open>Collaborators for concrete runs\<close>

text \<open>
  \<open>stubClient\<close> builds the request \<open>(verb, path)\<close> unless \<open>nr\<close> gives an error to return,
  and performs by returning \<open>pf req d\<close>; it keeps no state.
\<close>

definition stubClient ::
  "'e option \<Rightarrow> (string \<times> string \<Rightarrow> ('m, 'o) dst \<Rightarrow> 'e option \<times> ('m, 'o) dst) \<Rightarrow>
   ('m, string \<times> string, 'd, 'o, 'e, unit) Client" where
  "stubClient nr pf =
     \<lparr>newRequest = (\<lambda>verb path data w.
        ((case nr of None \<Rightarrow> Inr (verb, path) | Some e \<Rightarrow> Inl e), w)),
      perform = (\<lambda>req d w. (pf req d, w))\<rparr>"

text \<open>
  The collaborator of the end-to-end scenario: it answers GET \<^verbatim>\<open>customers/cust_1\<close> by
  decoding \<^verbatim>\<open>{"id":"cust_1","name":"Ana"}\<close> into the destination, which sets the two
  fields named and leaves the others as they are.
\<close>

definition anaPerform ::
  "string \<times> string \<Rightarrow> (nat, unit) dst \<Rightarrow> string option \<times> (nat, unit) dst" where
  "anaPerform req d =
     (if req = (''GET'', ''customers/cust_1'')
      then (case d of
              DstCustomer c \<Rightarrow> (None, DstCustomer (c\<lparr>ID := ''cust_1'', Name := ''Ana''\<rparr>))
            | _ \<Rightarrow> (None, d))
      else (Some ''not found'', d))"

definition anaClient :: "(nat, string \<times> string, unit, unit, string, unit) Client" where
  "anaClient = stubClient None anaPerform"

definition s0 :: "(nat, string \<times> string, unit, unit, unit) state" where
  "s0 = \<lparr>trace = [], world = ()\<rparr>"

definition anaArgs :: CustomerArgs where
  "anaArgs = \<lparr>ExternalID = [], CustomerArgs.Name = ''Ana'', CustomerArgs.LastName = [],
     CustomerArgs.Email = ''ana@example.com'', RequiresAccount = False,
     CustomerArgs.PhoneNumber = [], CustomerArgs.Address = zeroAddress\<rparr>"

text \<open>
  A collaborator whose \<^verbatim>\<open>newRequest\<close> fails, one whose \<^verbatim>\<open>perform\<close> fails, one that
  succeeds and writes nothing, and one that answers with a list of two customers.
\<close>

definition refusingClient :: "(nat, string \<times> string, unit, unit, string, unit) Client" where
  "refusingClient = stubClient (Some ''refused'') (\<lambda>req d. (None, d))"

definition failingClient :: "(nat, string \<times> string, unit, unit, string, unit) Client" where
  "failingClient = stubClient None (\<lambda>req d. (Some ''timeout'', d))"

definition quietClient :: "(nat, string \<times> string, unit, unit, string, unit) Client" where
  "quietClient = stubClient None (\<lambda>req d. (None, d))"

definition twoCustomers :: "nat Customer list" where
  "twoCustomers = [zeroCustomer\<lparr>ID := ''a''\<rparr>, zeroCustomer\<lparr>ID := ''b'', Merchant := Some 9\<rparr>]"

definition listingClient :: "(nat, string \<times> string, unit, unit, string, unit) Client" where
  "listingClient = stubClient None
     (\<lambda>req d. case d of DstCustomers cs \<Rightarrow> (None, DstCustomers twoCustomers) | _ \<Rightarrow> (None, d))"

text \<open>
  A collaborator whose \<^verbatim>\<open>perform\<close> writes the number 42 to the destination and then
  fails, for a caller of ChargeCustomer whose destination is a number; and the initial
  state for such a caller.
\<close>

definition partialClient :: "(nat, string \<times> string, unit, nat, string, unit) Client" where
  "partialClient = stubClient None (\<lambda>req d. (Some ''partial'', DstOther 42))"

definition s0_nat :: "(nat, string \<times> string, unit, nat, unit) state" where
  "s0_nat = \<lparr>trace = [], world = ()\<rparr>"

section \<open>What one call of the shared helper does\<close>

lemmas call_defs = client_newRequest_def client_perform_def

lemma pco_nil:
  "performCustomerOperation client None verb id' data d s = (Panics NilPointerDereference, s)"
  by (simp add: performCustomerOperation_def)

lemma pco_newRequest_error:
  assumes "newRequest (client m) verb (''customers/'' @ id') data (world s) = (Inl e, w1)"
  shows "performCustomerOperation client (Some m) verb id' data d s =
    (Returns (Some e, d),
     \<lparr>trace = trace s @ [NewRequest verb (''customers/'' @ id') data], world = w1\<rparr>)"
  using assms by (simp add: performCustomerOperation_def call_defs)

lemma pco_performed:
  assumes "newRequest (client m) verb (''customers/'' @ id') data (world s) = (Inr req, w1)"
    and "perform (client m) req d w1 = ((err, d'), w2)"
  shows "performCustomerOperation client (Some m) verb id' data d s =
    (Returns (err, d'),
     \<lparr>trace = trace s @ [NewRequest verb (''customers/'' @ id') data, Perform req d],
      world = w2\<rparr>)"
  using assms by (cases err) (simp_all add: performCustomerOperation_def call_defs)

lemma pco_trace:
  "trace (snd (performCustomerOperation client (Some m) verb id' data d s)) =
   trace s @ NewRequest verb (''customers/'' @ id') data #
     (case fst (newRequest (client m) verb (''customers/'' @ id') data (world s)) of
        Inl e \<Rightarrow> [] | Inr req \<Rightarrow> [Perform req d])"
proof (cases "newRequest (client m) verb (''customers/'' @ id') data (world s)")
  case (Pair r w1)
  show ?thesis
  proof (cases r)
    case (Inl e)
    with Pair show ?thesis by (simp add: pco_newRequest_error)
  next
    case (Inr req)
    obtain err d' w2 where "perform (client m) req d w1 = ((err, d'), w2)"
      by (metis surj_pair)
    with Pair Inr show ?thesis by (simp add: pco_performed)
  qed
qed

lemma GetCustomer_trace:
  "trace (snd (GetCustomer client (Some m) id' s)) =
   trace (snd (performCustomerOperation client (Some m) ''GET'' id' BodyNil
     (DstCustomer zeroCustomer) s))"
  by (simp add: GetCustomer_def split: prod.split outcome.split option.split)

lemma UpdateCustomer_trace:
  "trace (snd (UpdateCustomer client (Some m) id' data s)) =
   trace (snd (performCustomerOperation client (Some m) ''PUT'' id' (BodyCustomer data)
     (DstCustomer zeroCustomer) s))"
  by (simp add: UpdateCustomer_def split: prod.split outcome.split option.split)

lemma DeleteCustomer_trace:
  "trace (snd (DeleteCustomer client (Some m) id' s)) =
   trace (snd (performCustomerOperation client (Some m) ''DELETE'' id' BodyNil DstNil s))"
  by (simp add: DeleteCustomer_def split: prod.split outcome.split option.split)

section \<open>ChargeCustomer without a Merchant\<close>

text \<open>
  Claim C1 says that ChargeCustomer on a Customer whose Merchant is nil fails with an
  explicit "missing reference" error instead of dereferencing the nil pointer. The
  code has no such check. At the zero Customer the call does not return an error: it
  panics.
\<close>

theorem ChargeCustomer_nil_Merchant_counterexample:
  "ChargeCustomer (\<lambda>_. anaClient) (Some (zeroCustomer :: nat Customer)) BodyNil DstNil s0 =
     (Panics NilPointerDereference, s0)"
  by (simp add: ChargeCustomer_def pco_nil zeroCustomer_def)

text \<open>
  Claim C1 as amended: for every Customer whose Merchant is nil, whatever the
  collaborator, the data and the destination, ChargeCustomer fails at once, before
  any call to the collaborator (the state is unchanged), by the nil-pointer panic of
  the read \<^verbatim>\<open>m.client\<close> in performCustomerOperation; no error value is returned.
\<close>

theorem ChargeCustomer_nil_Merchant_panics:
  "ChargeCustomer client (Some (c\<lparr>Merchant := None\<rparr>)) data d s =
     (Panics NilPointerDereference, s)"
  by (simp add: ChargeCustomer_def pco_nil)

section \<open>GetCustomer\<close>

text \<open>
  Claim C6: for every id, the calls GetCustomer makes to the collaborator are one
  \<^verbatim>\<open>newRequest\<close> for GET at \<^verbatim>\<open>customers/{id}\<close> with no body, followed by one \<^verbatim>\<open>perform\<close>
  of the request it built (when it built one), and nothing else. With the collaborator
  that answers GET \<^verbatim>\<open>customers/cust_1\<close> by decoding \<^verbatim>\<open>{"id":"cust_1","name":"Ana"}\<close>,
  GetCustomer of \<^verbatim>\<open>cust_1\<close> on the context \<open>ctx\<close> returns the Customer with that ID and
  Name, every other field zero, and Merchant \<open>ctx\<close>.
\<close>

theorem GetCustomer_one_GET:
  "trace (snd (GetCustomer client (Some m) id' s)) =
     trace s @ NewRequest ''GET'' (''customers/'' @ id') BodyNil #
       (case fst (newRequest (client m) ''GET'' (''customers/'' @ id') BodyNil (world s)) of
          Inl e \<Rightarrow> [] | Inr req \<Rightarrow> [Perform req (DstCustomer zeroCustomer)]) \<and>
   GetCustomer (\<lambda>_. anaClient) (Some ctx) ''cust_1'' s0 =
     (Returns (Some (zeroCustomer\<lparr>ID := ''cust_1'', Name := ''Ana'', Merchant := Some ctx\<rparr>),
        None),
      \<lparr>trace = [NewRequest ''GET'' ''customers/cust_1'' BodyNil,
                Perform (''GET'', ''customers/cust_1'') (DstCustomer zeroCustomer)],
       world = ()\<rparr>)"
proof
  show "trace (snd (GetCustomer client (Some m) id' s)) =
     trace s @ NewRequest ''GET'' (''customers/'' @ id') BodyNil #
       (case fst (newRequest (client m) ''GET'' (''customers/'' @ id') BodyNil (world s)) of
          Inl e \<Rightarrow> [] | Inr req \<Rightarrow> [Perform req (DstCustomer zeroCustomer)])"
    by (simp only: GetCustomer_trace pco_trace)
next
  have nr: "newRequest anaClient ''GET'' (''customers/'' @ ''cust_1'') BodyNil (world s0) =
      (Inr (''GET'', ''customers/cust_1''), ())"
    by (simp add: anaClient_def stubClient_def)
  have pf: "perform anaClient (''GET'', ''customers/cust_1'') (DstCustomer zeroCustomer) () =
      ((None, DstCustomer (zeroCustomer\<lparr>ID := ''cust_1'', Name := ''Ana''\<rparr>)), ())"
    by (simp add: anaClient_def stubClient_def anaPerform_def)
  have run: "performCustomerOperation (\<lambda>_. anaClient) (Some ctx) ''GET'' ''cust_1'' BodyNil
      (DstCustomer zeroCustomer) s0 =
    (Returns (None, DstCustomer (zeroCustomer\<lparr>ID := ''cust_1'', Name := ''Ana''\<rparr>)),
     \<lparr>trace = trace s0 @ [NewRequest ''GET'' (''customers/'' @ ''cust_1'') BodyNil,
              Perform (''GET'', ''customers/cust_1'') (DstCustomer zeroCustomer)],
     world = ()\<rparr>)"
    using pco_performed [where client = "\<lambda>_. anaClient", OF nr pf] .
  show "GetCustomer (\<lambda>_. anaClient) (Some ctx) ''cust_1'' s0 =
     (Returns (Some (zeroCustomer\<lparr>ID := ''cust_1'', Name := ''Ana'', Merchant := Some ctx\<rparr>),
        None),
      \<lparr>trace = [NewRequest ''GET'' ''customers/cust_1'' BodyNil,
                Perform (''GET'', ''customers/cust_1'') (DstCustomer zeroCustomer)],
       world = ()\<rparr>)"
    by (simp add: GetCustomer_def run readCustomer_def) (simp add: s0_def)
qed

section \<open>The loop of GetCustomers\<close>

lemma GetCustomers_loop_prefix:
  "n \<le> length cs \<Longrightarrow>
   fold (\<lambda>i xs. xs[i := (xs ! i)\<lparr>Merchant := m\<rparr>]) [0..<n] cs =
   map (\<lambda>c. c\<lparr>Merchant := m\<rparr>) (take n cs) @ drop n cs"
proof (induction n)
  case 0
  then show ?case by simp
next
  case (Suc n)
  then have lt: "n < length cs" by simp
  have "fold (\<lambda>i xs. xs[i := (xs ! i)\<lparr>Merchant := m\<rparr>]) [0..<Suc n] cs =
        (map (\<lambda>c. c\<lparr>Merchant := m\<rparr>) (take n cs) @ drop n cs)
          [n := ((map (\<lambda>c. c\<lparr>Merchant := m\<rparr>) (take n cs) @ drop n cs) ! n)\<lparr>Merchant := m\<rparr>]"
    using Suc by simp
  also have "\<dots> = map (\<lambda>c. c\<lparr>Merchant := m\<rparr>) (take (Suc n) cs) @ drop (Suc n) cs"
    using lt by (simp add: list_update_append nth_append take_Suc_conv_app_nth
        Cons_nth_drop_Suc [symmetric])
  finally show ?case .
qed

lemma GetCustomers_loop_map:
  "GetCustomers_loop m cs = map (\<lambda>c. c\<lparr>Merchant := m\<rparr>) cs"
  by (simp add: GetCustomers_loop_def GetCustomers_loop_prefix)

section \<open>AddCustomer\<close>

text \<open>
  Claim C4: for every CustomerArgs input \<open>a\<close> on which the collaborator's \<^verbatim>\<open>newRequest\<close>
  and \<^verbatim>\<open>perform\<close> both succeed, the calls AddCustomer makes are one \<^verbatim>\<open>newRequest\<close> for
  POST at \<^verbatim>\<open>customers\<close> with \<open>a\<close> as the body and one \<^verbatim>\<open>perform\<close> of the request built,
  and it returns, with no error, the Customer that \<^verbatim>\<open>perform\<close> decoded with its Merchant
  field set to the Merchant AddCustomer was called on.
\<close>

theorem AddCustomer_success:
  assumes nr: "newRequest (client m) ''POST'' ''customers'' (BodyCustomerArgs (Some a)) (world s) =
      (Inr req, w1)"
    and pf: "perform (client m) req (DstCustomer zeroCustomer) w1 = ((None, d'), w2)"
  shows "\<exists>customer.
      AddCustomer client (Some m) (Some a) s =
        (Returns (Some customer, None),
         \<lparr>trace = trace s @ [NewRequest ''POST'' ''customers'' (BodyCustomerArgs (Some a)),
                             Perform req (DstCustomer zeroCustomer)],
          world = w2\<rparr>) \<and>
      customer = (readCustomer d' zeroCustomer)\<lparr>Merchant := Some m\<rparr> \<and>
      Merchant customer = Some m"
  using nr pf by (simp add: AddCustomer_def call_defs)

text \<open>The run of AddCustomer on a collaborator that succeeds.\<close>

theorem AddCustomer_success_witness:
  "newRequest quietClient ''POST'' ''customers'' (BodyCustomerArgs (Some anaArgs)) (world s0) =
     (Inr (''POST'', ''customers''), ()) \<and>
   perform quietClient (''POST'', ''customers'') (DstCustomer zeroCustomer) () =
     ((None, DstCustomer zeroCustomer), ()) \<and>
   AddCustomer (\<lambda>_. quietClient) (Some 1) (Some anaArgs) s0 =
     (Returns (Some (zeroCustomer\<lparr>Merchant := Some 1\<rparr>), None),
      \<lparr>trace = [NewRequest ''POST'' ''customers'' (BodyCustomerArgs (Some anaArgs)),
                Perform (''POST'', ''customers'') (DstCustomer zeroCustomer)],
       world = ()\<rparr>)"
proof -
  have nr: "newRequest quietClient ''POST'' ''customers'' (BodyCustomerArgs (Some anaArgs))
      (world s0) = (Inr (''POST'', ''customers''), ())"
    by (simp add: quietClient_def stubClient_def)
  have pf: "perform quietClient (''POST'', ''customers'') (DstCustomer zeroCustomer) () =
     ((None, DstCustomer (zeroCustomer :: nat Customer)), ())"
    by (simp add: quietClient_def stubClient_def)
  from AddCustomer_success [where client = "\<lambda>_. quietClient" and m = 1, OF nr pf]
  have "AddCustomer (\<lambda>_. quietClient) (Some 1) (Some anaArgs) s0 =
     (Returns (Some (zeroCustomer\<lparr>Merchant := Some 1\<rparr>), None),
      \<lparr>trace = trace s0 @ [NewRequest ''POST'' ''customers'' (BodyCustomerArgs (Some anaArgs)),
          Perform (''POST'', ''customers'') (DstCustomer zeroCustomer)],
       world = ()\<rparr>)"
    by (simp add: readCustomer_def)
  with nr pf show ?thesis by (simp add: s0_def)
qed

section \<open>GetCustomers\<close>

text \<open>
  Claim C5: for every sequence \<open>cs\<close> of customers that the collaborator decodes into the
  destination, GetCustomers returns the sequence of the same length and order whose
  i-th element is the i-th element of \<open>cs\<close> with the Merchant field set to the calling
  Merchant and every other field as the collaborator produced it.
\<close>

theorem GetCustomers_sets_Merchant:
  assumes nr: "newRequest (client m) ''GET'' ''customers'' BodyNil (world s) = (Inr req, w1)"
    and pf: "perform (client m) req (DstCustomers []) w1 = ((None, DstCustomers cs), w2)"
  shows "GetCustomers client (Some m) s =
      (Returns (map (\<lambda>c. c\<lparr>Merchant := Some m\<rparr>) cs, None),
       \<lparr>trace = trace s @ [NewRequest ''GET'' ''customers'' BodyNil, Perform req (DstCustomers [])],
        world = w2\<rparr>)"
  using nr pf by (simp add: GetCustomers_def call_defs readCustomers_def GetCustomers_loop_map)

text \<open>
  The run on a collaborator that lists two customers, one of which came with another
  Merchant.
\<close>

theorem GetCustomers_sets_Merchant_witness:
  "newRequest listingClient ''GET'' ''customers'' BodyNil (world s0) = (Inr (''GET'', ''customers''), ()) \<and>
   perform listingClient (''GET'', ''customers'') (DstCustomers []) () =
     ((None, DstCustomers twoCustomers), ()) \<and>
   GetCustomers (\<lambda>_. listingClient) (Some 4) s0 =
     (Returns ([zeroCustomer\<lparr>ID := ''a'', Merchant := Some 4\<rparr>,
                zeroCustomer\<lparr>ID := ''b'', Merchant := Some 4\<rparr>], None),
      \<lparr>trace = [NewRequest ''GET'' ''customers'' BodyNil,
                Perform (''GET'', ''customers'') (DstCustomers [])],
       world = ()\<rparr>)"
proof -
  have nr: "newRequest listingClient ''GET'' ''customers'' BodyNil (world s0) =
      (Inr (''GET'', ''customers''), ())"
    by (simp add: listingClient_def stubClient_def)
  have pf: "perform listingClient (''GET'', ''customers'') (DstCustomers []) () =
     ((None, DstCustomers twoCustomers), ())"
    by (simp add: listingClient_def stubClient_def)
  from GetCustomers_sets_Merchant [where client = "\<lambda>_. listingClient" and m = 4, OF nr pf]
  have "GetCustomers (\<lambda>_. listingClient) (Some 4) s0 =
      (Returns (map (\<lambda>c. c\<lparr>Merchant := Some 4\<rparr>) twoCustomers, None),
       \<lparr>trace = trace s0 @ [NewRequest ''GET'' ''customers'' BodyNil,
          Perform (''GET'', ''customers'') (DstCustomers [])],
        world = ()\<rparr>)" .
  with nr pf show ?thesis by (simp add: s0_def twoCustomers_def)
qed

section \<open>DeleteCustomer\<close>

text \<open>
  Claim C7: for every id, the calls DeleteCustomer makes to the collaborator are one
  \<^verbatim>\<open>newRequest\<close> for DELETE at \<^verbatim>\<open>customers/{id}\<close> with no body (\<^term>\<open>BodyNil\<close>), followed by
  one \<^verbatim>\<open>perform\<close> of the request it built (when it built one) with no destination
  (\<^term>\<open>DstNil\<close>: nothing is decoded). When both calls succeed it returns \<^verbatim>\<open>nil\<close>; the
  error is all it ever returns.
\<close>

theorem DeleteCustomer_one_DELETE:
  "trace (snd (DeleteCustomer client (Some m) id' s)) =
     trace s @ NewRequest ''DELETE'' (''customers/'' @ id') BodyNil #
       (case fst (newRequest (client m) ''DELETE'' (''customers/'' @ id') BodyNil (world s)) of
          Inl e \<Rightarrow> [] | Inr req \<Rightarrow> [Perform req DstNil]) \<and>
   (newRequest (client m) ''DELETE'' (''customers/'' @ id') BodyNil (world s) = (Inr req, w1) \<and>
    perform (client m) req DstNil w1 = ((None, d'), w2) \<longrightarrow>
    DeleteCustomer client (Some m) id' s =
      (Returns None,
       \<lparr>trace = trace s @ [NewRequest ''DELETE'' (''customers/'' @ id') BodyNil,
                           Perform req DstNil],
        world = w2\<rparr>))"
proof (intro conjI impI)
  show "trace (snd (DeleteCustomer client (Some m) id' s)) =
     trace s @ NewRequest ''DELETE'' (''customers/'' @ id') BodyNil #
       (case fst (newRequest (client m) ''DELETE'' (''customers/'' @ id') BodyNil (world s)) of
          Inl e \<Rightarrow> [] | Inr req \<Rightarrow> [Perform req DstNil])"
    by (simp only: DeleteCustomer_trace pco_trace)
next
  assume "newRequest (client m) ''DELETE'' (''customers/'' @ id') BodyNil (world s) = (Inr req, w1) \<and>
    perform (client m) req DstNil w1 = ((None, d'), w2)"
  then show "DeleteCustomer client (Some m) id' s =
      (Returns None,
       \<lparr>trace = trace s @ [NewRequest ''DELETE'' (''customers/'' @ id') BodyNil,
                           Perform req DstNil],
        world = w2\<rparr>)"
    by (simp add: DeleteCustomer_def pco_performed)
qed

text \<open>
  The run of DeleteCustomer on a collaborator that succeeds.
\<close>

theorem DeleteCustomer_one_DELETE_witness:
  "newRequest quietClient ''DELETE'' (''customers/'' @ ''cust_1'') BodyNil (world s0) =
     (Inr (''DELETE'', ''customers/cust_1''), ()) \<and>
   perform quietClient (''DELETE'', ''customers/cust_1'') DstNil () = ((None, DstNil), ()) \<and>
   DeleteCustomer (\<lambda>_. quietClient) (Some 1) ''cust_1'' s0 =
     (Returns None,
      \<lparr>trace = [NewRequest ''DELETE'' ''customers/cust_1'' BodyNil,
                Perform (''DELETE'', ''customers/cust_1'') DstNil],
       world = ()\<rparr>)"
proof -
  have nr: "newRequest quietClient ''DELETE'' (''customers/'' @ ''cust_1'') BodyNil (world s0) =
     (Inr (''DELETE'', ''customers/cust_1''), ())"
    by (simp add: quietClient_def stubClient_def)
  have pf: "perform quietClient (''DELETE'', ''customers/cust_1'') DstNil () =
     ((None, DstNil :: (nat, unit) dst), ())"
    by (simp add: quietClient_def stubClient_def)
  from DeleteCustomer_one_DELETE [where client = "\<lambda>_. quietClient" and m = 1
      and id' = "''cust_1''" and s = s0 and req = "(''DELETE'', ''customers/cust_1'')"
      and ?w1.0 = "()" and ?w2.0 = "()" and d' = DstNil] nr pf
  have "DeleteCustomer (\<lambda>_. quietClient) (Some 1) ''cust_1'' s0 =
     (Returns None,
      \<lparr>trace = trace s0 @ [NewRequest ''DELETE'' (''customers/'' @ ''cust_1'') BodyNil,
                Perform (''DELETE'', ''customers/cust_1'') DstNil],
       world = ()\<rparr>)"
    by blast
  with nr pf show ?thesis by (simp add: s0_def)
qed

section \<open>Errors of the collaborator\<close>

text \<open>
  Claim C8 says that every operation returns an error of the collaborator unchanged
  and with no result, so that no outcome is a partial success. ChargeCustomer hands
  the caller's destination straight to \<^verbatim>\<open>perform\<close> (line 176) and never resets it: when
  \<^verbatim>\<open>perform\<close> writes to the destination and then fails, the caller gets the error
  together with a destination that has changed. Here the destination held 0 before
  the call and holds 42 after it.
\<close>

theorem ChargeCustomer_partial_destination_counterexample:
  "ChargeCustomer (\<lambda>_. partialClient)
       (Some (zeroCustomer\<lparr>ID := ''cust_1'', Merchant := Some 1\<rparr>)) BodyNil (DstOther 0) s0_nat =
     (Returns (Some ''partial'', DstOther 42),
      \<lparr>trace = [NewRequest ''POST'' ''customers/cust_1/charges'' BodyNil,
                Perform (''POST'', ''customers/cust_1/charges'') (DstOther 0)],
       world = ()\<rparr>) \<and>
   (DstOther 42 :: (nat, nat) dst) \<noteq> DstOther 0"
  by (simp add: ChargeCustomer_def performCustomerOperation_def call_defs partialClient_def
      stubClient_def s0_nat_def)

text \<open>
  Claim C8 as amended: in each of the six operations, an error \<open>e\<close> returned by the
  collaborator's \<^verbatim>\<open>newRequest\<close>, or by its \<^verbatim>\<open>perform\<close> of the request built, is what the
  operation returns as its error, unchanged. AddCustomer, GetCustomer and
  UpdateCustomer return a \<^verbatim>\<open>nil\<close> Customer with it and GetCustomers a \<^verbatim>\<open>nil\<close> slice,
  whatever \<^verbatim>\<open>perform\<close> wrote to their local variable. DeleteCustomer and ChargeCustomer
  return the error only. The destination of ChargeCustomer is the caller's: it is
  untouched when \<^verbatim>\<open>newRequest\<close> fails, and when \<^verbatim>\<open>perform\<close> fails it holds whatever
  \<^verbatim>\<open>perform\<close> left there, so a written destination can come with the error.
\<close>

theorem collaborator_error_returned:
  "(newRequest (client m) ''POST'' ''customers'' (BodyCustomerArgs args) (world s) = (Inl e, w1) \<longrightarrow>
      fst (AddCustomer client (Some m) args s) = Returns (None, Some e)) \<and>
   (newRequest (client m) ''POST'' ''customers'' (BodyCustomerArgs args) (world s) = (Inr req, w1) \<and>
    perform (client m) req (DstCustomer zeroCustomer) w1 = ((Some e, d'), w2) \<longrightarrow>
      fst (AddCustomer client (Some m) args s) = Returns (None, Some e)) \<and>
   (newRequest (client m) ''GET'' ''customers'' BodyNil (world s) = (Inl e, w1) \<longrightarrow>
      fst (GetCustomers client (Some m) s) = Returns ([], Some e)) \<and>
   (newRequest (client m) ''GET'' ''customers'' BodyNil (world s) = (Inr req, w1) \<and>
    perform (client m) req (DstCustomers []) w1 = ((Some e, d'), w2) \<longrightarrow>
      fst (GetCustomers client (Some m) s) = Returns ([], Some e)) \<and>
   (newRequest (client m) ''GET'' (''customers/'' @ id') BodyNil (world s) = (Inl e, w1) \<longrightarrow>
      fst (GetCustomer client (Some m) id' s) = Returns (None, Some e)) \<and>
   (newRequest (client m) ''GET'' (''customers/'' @ id') BodyNil (world s) = (Inr req, w1) \<and>
    perform (client m) req (DstCustomer zeroCustomer) w1 = ((Some e, d'), w2) \<longrightarrow>
      fst (GetCustomer client (Some m) id' s) = Returns (None, Some e)) \<and>
   (newRequest (client m) ''PUT'' (''customers/'' @ id') (BodyCustomer upd) (world s) = (Inl e, w1) \<longrightarrow>
      fst (UpdateCustomer client (Some m) id' upd s) = Returns (None, Some e)) \<and>
   (newRequest (client m) ''PUT'' (''customers/'' @ id') (BodyCustomer upd) (world s) = (Inr req, w1) \<and>
    perform (client m) req (DstCustomer zeroCustomer) w1 = ((Some e, d'), w2) \<longrightarrow>
      fst (UpdateCustomer client (Some m) id' upd s) = Returns (None, Some e)) \<and>
   (newRequest (client m) ''DELETE'' (''customers/'' @ id') BodyNil (world s) = (Inl e, w1) \<longrightarrow>
      fst (DeleteCustomer client (Some m) id' s) = Returns (Some e)) \<and>
   (newRequest (client m) ''DELETE'' (''customers/'' @ id') BodyNil (world s) = (Inr req, w1) \<and>
    perform (client m) req DstNil w1 = ((Some e, d'), w2) \<longrightarrow>
      fst (DeleteCustomer client (Some m) id' s) = Returns (Some e)) \<and>
   (newRequest (client m) ''POST'' (''customers/'' @ ID c @ ''/charges'') data (world s) = (Inl e, w1) \<longrightarrow>
      fst (ChargeCustomer client (Some (c\<lparr>Merchant := Some m\<rparr>)) data d s) = Returns (Some e, d)) \<and>
   (newRequest (client m) ''POST'' (''customers/'' @ ID c @ ''/charges'') data (world s) = (Inr req, w1) \<and>
    perform (client m) req d w1 = ((Some e, d'), w2) \<longrightarrow>
      fst (ChargeCustomer client (Some (c\<lparr>Merchant := Some m\<rparr>)) data d s) = Returns (Some e, d'))"
proof (intro conjI impI)
  assume "newRequest (client m) ''POST'' ''customers'' (BodyCustomerArgs args) (world s) = (Inl e, w1)"
  then show "fst (AddCustomer client (Some m) args s) = Returns (None, Some e)"
    by (simp add: AddCustomer_def call_defs)
next
  assume "newRequest (client m) ''POST'' ''customers'' (BodyCustomerArgs args) (world s) = (Inr req, w1) \<and>
    perform (client m) req (DstCustomer zeroCustomer) w1 = ((Some e, d'), w2)"
  then show "fst (AddCustomer client (Some m) args s) = Returns (None, Some e)"
    by (simp add: AddCustomer_def call_defs)
next
  assume "newRequest (client m) ''GET'' ''customers'' BodyNil (world s) = (Inl e, w1)"
  then show "fst (GetCustomers client (Some m) s) = Returns ([], Some e)"
    by (simp add: GetCustomers_def call_defs)
next
  assume "newRequest (client m) ''GET'' ''customers'' BodyNil (world s) = (Inr req, w1) \<and>
    perform (client m) req (DstCustomers []) w1 = ((Some e, d'), w2)"
  then show "fst (GetCustomers client (Some m) s) = Returns ([], Some e)"
    by (simp add: GetCustomers_def call_defs)
next
  assume "newRequest (client m) ''GET'' (''customers/'' @ id') BodyNil (world s) = (Inl e, w1)"
  then show "fst (GetCustomer client (Some m) id' s) = Returns (None, Some e)"
    by (simp add: GetCustomer_def pco_newRequest_error)
next
  assume "newRequest (client m) ''GET'' (''customers/'' @ id') BodyNil (world s) = (Inr req, w1) \<and>
    perform (client m) req (DstCustomer zeroCustomer) w1 = ((Some e, d'), w2)"
  then show "fst (GetCustomer client (Some m) id' s) = Returns (None, Some e)"
    by (simp add: GetCustomer_def pco_performed)
next
  assume "newRequest (client m) ''PUT'' (''customers/'' @ id') (BodyCustomer upd) (world s) = (Inl e, w1)"
  then show "fst (UpdateCustomer client (Some m) id' upd s) = Returns (None, Some e)"
    by (simp add: UpdateCustomer_def pco_newRequest_error)
next
  assume "newRequest (client m) ''PUT'' (''customers/'' @ id') (BodyCustomer upd) (world s) = (Inr req, w1) \<and>
    perform (client m) req (DstCustomer zeroCustomer) w1 = ((Some e, d'), w2)"
  then show "fst (UpdateCustomer client (Some m) id' upd s) = Returns (None, Some e)"
    by (simp add: UpdateCustomer_def pco_performed)
next
  assume "newRequest (client m) ''DELETE'' (''customers/'' @ id') BodyNil (world s) = (Inl e, w1)"
  then show "fst (DeleteCustomer client (Some m) id' s) = Returns (Some e)"
    by (simp add: DeleteCustomer_def pco_newRequest_error)
next
  assume "newRequest (client m) ''DELETE'' (''customers/'' @ id') BodyNil (world s) = (Inr req, w1) \<and>
    perform (client m) req DstNil w1 = ((Some e, d'), w2)"
  then show "fst (DeleteCustomer client (Some m) id' s) = Returns (Some e)"
    by (simp add: DeleteCustomer_def pco_performed)
next
  assume "newRequest (client m) ''POST'' (''customers/'' @ ID c @ ''/charges'') data (world s) = (Inl e, w1)"
  then show "fst (ChargeCustomer client (Some (c\<lparr>Merchant := Some m\<rparr>)) data d s) = Returns (Some e, d)"
    by (simp add: ChargeCustomer_def pco_newRequest_error)
next
  assume "newRequest (client m) ''POST'' (''customers/'' @ ID c @ ''/charges'') data (world s) = (Inr req, w1) \<and>
    perform (client m) req d w1 = ((Some e, d'), w2)"
  then show "fst (ChargeCustomer client (Some (c\<lparr>Merchant := Some m\<rparr>)) data d s) = Returns (Some e, d')"
    by (simp add: ChargeCustomer_def pco_performed)
qed

text \<open>
  The six operations on a collaborator whose \<^verbatim>\<open>newRequest\<close> returns the error
  \<^verbatim>\<open>refused\<close>, and on one whose \<^verbatim>\<open>perform\<close> returns the error \<^verbatim>\<open>timeout\<close>; and
  ChargeCustomer on the collaborator whose \<^verbatim>\<open>perform\<close> writes 42 before it fails.
\<close>

theorem collaborator_error_returned_witness:
  "newRequest refusingClient ''POST'' ''customers'' (BodyCustomerArgs (Some anaArgs)) (world s0) =
     (Inl ''refused'', ()) \<and>
   fst (AddCustomer (\<lambda>_. refusingClient) (Some 1) (Some anaArgs) s0) =
     Returns (None, Some ''refused'') \<and>
   newRequest refusingClient ''GET'' ''customers'' BodyNil (world s0) =
     (Inl ''refused'', ()) \<and>
   fst (GetCustomers (\<lambda>_. refusingClient) (Some 1) s0) =
     Returns ([], Some ''refused'') \<and>
   newRequest refusingClient ''GET'' (''customers/'' @ ''cust_1'') BodyNil (world s0) =
     (Inl ''refused'', ()) \<and>
   fst (GetCustomer (\<lambda>_. refusingClient) (Some 1) ''cust_1'' s0) =
     Returns (None, Some ''refused'') \<and>
   newRequest refusingClient ''PUT'' (''customers/'' @ ''cust_1'') (BodyCustomer (Some zeroCustomer)) (world s0) =
     (Inl ''refused'', ()) \<and>
   fst (UpdateCustomer (\<lambda>_. refusingClient) (Some 1) ''cust_1'' (Some zeroCustomer) s0) =
     Returns (None, Some ''refused'') \<and>
   newRequest refusingClient ''DELETE'' (''customers/'' @ ''cust_1'') BodyNil (world s0) =
     (Inl ''refused'', ()) \<and>
   fst (DeleteCustomer (\<lambda>_. refusingClient) (Some 1) ''cust_1'' s0) =
     Returns (Some ''refused'') \<and>
   newRequest refusingClient ''POST'' (''customers/'' @ ''cust_1'' @ ''/charges'') BodyNil (world s0) =
     (Inl ''refused'', ()) \<and>
   fst (ChargeCustomer (\<lambda>_. refusingClient)
       (Some (zeroCustomer\<lparr>ID := ''cust_1'', Merchant := Some 1\<rparr>)) BodyNil DstNil s0) =
     Returns (Some ''refused'', DstNil) \<and>
   newRequest failingClient ''POST'' ''customers'' (BodyCustomerArgs (Some anaArgs)) (world s0) =
     (Inr (''POST'', ''customers''), ()) \<and>
   perform failingClient (''POST'', ''customers'') (DstCustomer zeroCustomer) () =
     ((Some ''timeout'', DstCustomer zeroCustomer), ()) \<and>
   fst (AddCustomer (\<lambda>_. failingClient) (Some 1) (Some anaArgs) s0) =
     Returns (None, Some ''timeout'') \<and>
   newRequest failingClient ''GET'' ''customers'' BodyNil (world s0) =
     (Inr (''GET'', ''customers''), ()) \<and>
   perform failingClient (''GET'', ''customers'') (DstCustomers []) () =
     ((Some ''timeout'', DstCustomers []), ()) \<and>
   fst (GetCustomers (\<lambda>_. failingClient) (Some 1) s0) =
     Returns ([], Some ''timeout'') \<and>
   newRequest failingClient ''GET'' (''customers/'' @ ''cust_1'') BodyNil (world s0) =
     (Inr (''GET'', ''customers/cust_1''), ()) \<and>
   perform failingClient (''GET'', ''customers/cust_1'') (DstCustomer zeroCustomer) () =
     ((Some ''timeout'', DstCustomer zeroCustomer), ()) \<and>
   fst (GetCustomer (\<lambda>_. failingClient) (Some 1) ''cust_1'' s0) =
     Returns (None, Some ''timeout'') \<and>
   newRequest failingClient ''PUT'' (''customers/'' @ ''cust_1'') (BodyCustomer (Some zeroCustomer)) (world s0) =
     (Inr (''PUT'', ''customers/cust_1''), ()) \<and>
   perform failingClient (''PUT'', ''customers/cust_1'') (DstCustomer zeroCustomer) () =
     ((Some ''timeout'', DstCustomer zeroCustomer), ()) \<and>
   fst (UpdateCustomer (\<lambda>_. failingClient) (Some 1) ''cust_1'' (Some zeroCustomer) s0) =
     Returns (None, Some ''timeout'') \<and>
   newRequest failingClient ''DELETE'' (''customers/'' @ ''cust_1'') BodyNil (world s0) =
     (Inr (''DELETE'', ''customers/cust_1''), ()) \<and>
   perform failingClient (''DELETE'', ''customers/cust_1'') DstNil () =
     ((Some ''timeout'', DstNil), ()) \<and>
   fst (DeleteCustomer (\<lambda>_. failingClient) (Some 1) ''cust_1'' s0) =
     Returns (Some ''timeout'') \<and>
   newRequest failingClient ''POST'' (''customers/'' @ ''cust_1'' @ ''/charges'') BodyNil (world s0) =
     (Inr (''POST'', ''customers/cust_1/charges''), ()) \<and>
   perform failingClient (''POST'', ''customers/cust_1/charges'') DstNil () =
     ((Some ''timeout'', DstNil), ()) \<and>
   fst (ChargeCustomer (\<lambda>_. failingClient)
       (Some (zeroCustomer\<lparr>ID := ''cust_1'', Merchant := Some 1\<rparr>)) BodyNil DstNil s0) =
     Returns (Some ''timeout'', DstNil) \<and>
   newRequest partialClient ''POST'' (''customers/'' @ ''cust_1'' @ ''/charges'') BodyNil (world s0_nat) =
     (Inr (''POST'', ''customers/cust_1/charges''), ()) \<and>
   perform partialClient (''POST'', ''customers/cust_1/charges'') (DstOther 0) () =
     ((Some ''partial'', DstOther 42), ()) \<and>
   fst (ChargeCustomer (\<lambda>_. partialClient)
       (Some (zeroCustomer\<lparr>ID := ''cust_1'', Merchant := Some 1\<rparr>)) BodyNil (DstOther 0) s0_nat) =
     Returns (Some ''partial'', DstOther 42)"
proof -
  note refused = collaborator_error_returned [where client = "\<lambda>_. refusingClient" and m = 1
      and s = s0 and e = "''refused''" and ?w1.0 = "()" and args = "Some anaArgs"
      and id' = "''cust_1''" and upd = "Some zeroCustomer"
      and c = "zeroCustomer\<lparr>ID := ''cust_1''\<rparr>" and data = BodyNil and d = DstNil]
  note timeout = collaborator_error_returned [where client = "\<lambda>_. failingClient" and m = 1
      and s = s0 and e = "''timeout''" and ?w1.0 = "()" and ?w2.0 = "()"
      and args = "Some anaArgs" and id' = "''cust_1''" and upd = "Some zeroCustomer"
      and c = "zeroCustomer\<lparr>ID := ''cust_1''\<rparr>" and data = BodyNil and d = DstNil]
  have r1n: "newRequest refusingClient ''POST'' ''customers'' (BodyCustomerArgs (Some anaArgs)) (world s0) =
      (Inl ''refused'', ())"
    by (simp add: refusingClient_def stubClient_def)
  have r1: "fst (AddCustomer (\<lambda>_. refusingClient) (Some 1) (Some anaArgs) s0) =
      Returns (None, Some ''refused'')"
    using refused r1n by simp
  have r2n: "newRequest refusingClient ''GET'' ''customers'' BodyNil (world s0) =
      (Inl ''refused'', ())"
    by (simp add: refusingClient_def stubClient_def)
  have r2: "fst (GetCustomers (\<lambda>_. refusingClient) (Some 1) s0) =
      Returns ([], Some ''refused'')"
    using refused r2n by simp
  have r3n: "newRequest refusingClient ''GET'' (''customers/'' @ ''cust_1'') BodyNil (world s0) =
      (Inl ''refused'', ())"
    by (simp add: refusingClient_def stubClient_def)
  have r3: "fst (GetCustomer (\<lambda>_. refusingClient) (Some 1) ''cust_1'' s0) =
      Returns (None, Some ''refused'')"
    using refused r3n by simp
  have r4n: "newRequest refusingClient ''PUT'' (''customers/'' @ ''cust_1'') (BodyCustomer (Some zeroCustomer)) (world s0) =
      (Inl ''refused'', ())"
    by (simp add: refusingClient_def stubClient_def)
  have r4: "fst (UpdateCustomer (\<lambda>_. refusingClient) (Some 1) ''cust_1'' (Some zeroCustomer) s0) =
      Returns (None, Some ''refused'')"
    using refused r4n by simp
  have r5n: "newRequest refusingClient ''DELETE'' (''customers/'' @ ''cust_1'') BodyNil (world s0) =
      (Inl ''refused'', ())"
    by (simp add: refusingClient_def stubClient_def)
  have r5: "fst (DeleteCustomer (\<lambda>_. refusingClient) (Some 1) ''cust_1'' s0) =
      Returns (Some ''refused'')"
    using refused r5n by simp
  have r6n: "newRequest refusingClient ''POST'' (''customers/'' @ ''cust_1'' @ ''/charges'') BodyNil (world s0) =
      (Inl ''refused'', ())"
    by (simp add: refusingClient_def stubClient_def)
  have r6: "fst (ChargeCustomer (\<lambda>_. refusingClient)
       (Some (zeroCustomer\<lparr>ID := ''cust_1'', Merchant := Some 1\<rparr>)) BodyNil DstNil s0) =
      Returns (Some ''refused'', DstNil)"
    using refused r6n by simp
  have t1n: "newRequest failingClient ''POST'' ''customers'' (BodyCustomerArgs (Some anaArgs)) (world s0) =
      (Inr (''POST'', ''customers''), ())"
    by (simp add: failingClient_def stubClient_def)
  have t1p: "perform failingClient (''POST'', ''customers'') (DstCustomer zeroCustomer) () =
      ((Some ''timeout'', DstCustomer zeroCustomer), ())"
    by (simp add: failingClient_def stubClient_def)
  have t1: "fst (AddCustomer (\<lambda>_. failingClient) (Some 1) (Some anaArgs) s0) =
      Returns (None, Some ''timeout'')"
    using timeout [where req = "(''POST'', ''customers'')" and d' = "DstCustomer zeroCustomer"] t1n t1p by simp
  have t2n: "newRequest failingClient ''GET'' ''customers'' BodyNil (world s0) =
      (Inr (''GET'', ''customers''), ())"
    by (simp add: failingClient_def stubClient_def)
  have t2p: "perform failingClient (''GET'', ''customers'') (DstCustomers []) () =
      ((Some ''timeout'', DstCustomers []), ())"
    by (simp add: failingClient_def stubClient_def)
  have t2: "fst (GetCustomers (\<lambda>_. failingClient) (Some 1) s0) =
      Returns ([], Some ''timeout'')"
    using timeout [where req = "(''GET'', ''customers'')" and d' = "DstCustomers []"] t2n t2p by simp
  have t3n: "newRequest failingClient ''GET'' (''customers/'' @ ''cust_1'') BodyNil (world s0) =
      (Inr (''GET'', ''customers/cust_1''), ())"
    by (simp add: failingClient_def stubClient_def)
  have t3p: "perform failingClient (''GET'', ''customers/cust_1'') (DstCustomer zeroCustomer) () =
      ((Some ''timeout'', DstCustomer zeroCustomer), ())"
    by (simp add: failingClient_def stubClient_def)
  have t3: "fst (GetCustomer (\<lambda>_. failingClient) (Some 1) ''cust_1'' s0) =
      Returns (None, Some ''timeout'')"
    using timeout [where req = "(''GET'', ''customers/cust_1'')" and d' = "DstCustomer zeroCustomer"] t3n t3p by simp
  have t4n: "newRequest failingClient ''PUT'' (''customers/'' @ ''cust_1'') (BodyCustomer (Some zeroCustomer)) (world s0) =
      (Inr (''PUT'', ''customers/cust_1''), ())"
    by (simp add: failingClient_def stubClient_def)
  have t4p: "perform failingClient (''PUT'', ''customers/cust_1'') (DstCustomer zeroCustomer) () =
      ((Some ''timeout'', DstCustomer zeroCustomer), ())"
    by (simp add: failingClient_def stubClient_def)
  have t4: "fst (UpdateCustomer (\<lambda>_. failingClient) (Some 1) ''cust_1'' (Some zeroCustomer) s0) =
      Returns (None, Some ''timeout'')"
    using timeout [where req = "(''PUT'', ''customers/cust_1'')" and d' = "DstCustomer zeroCustomer"] t4n t4p by simp
  have t5n: "newRequest failingClient ''DELETE'' (''customers/'' @ ''cust_1'') BodyNil (world s0) =
      (Inr (''DELETE'', ''customers/cust_1''), ())"
    by (simp add: failingClient_def stubClient_def)
  have t5p: "perform failingClient (''DELETE'', ''customers/cust_1'') DstNil () =
      ((Some ''timeout'', DstNil), ())"
    by (simp add: failingClient_def stubClient_def)
  have t5: "fst (DeleteCustomer (\<lambda>_. failingClient) (Some 1) ''cust_1'' s0) =
      Returns (Some ''timeout'')"
    using timeout [where req = "(''DELETE'', ''customers/cust_1'')" and d' = "DstNil"] t5n t5p by simp
  have t6n: "newRequest failingClient ''POST'' (''customers/'' @ ''cust_1'' @ ''/charges'') BodyNil (world s0) =
      (Inr (''POST'', ''customers/cust_1/charges''), ())"
    by (simp add: failingClient_def stubClient_def)
  have t6p: "perform failingClient (''POST'', ''customers/cust_1/charges'') DstNil () =
      ((Some ''timeout'', DstNil), ())"
    by (simp add: failingClient_def stubClient_def)
  have t6: "fst (ChargeCustomer (\<lambda>_. failingClient)
       (Some (zeroCustomer\<lparr>ID := ''cust_1'', Merchant := Some 1\<rparr>)) BodyNil DstNil s0) =
      Returns (Some ''timeout'', DstNil)"
    using timeout [where req = "(''POST'', ''customers/cust_1/charges'')" and d' = "DstNil"] t6n t6p by simp
  note partial = collaborator_error_returned [where client = "\<lambda>_. partialClient" and m = 1
      and s = s0_nat and e = "''partial''" and ?w1.0 = "()" and ?w2.0 = "()"
      and c = "zeroCustomer\<lparr>ID := ''cust_1''\<rparr>" and data = BodyNil and d = "DstOther 0"
      and req = "(''POST'', ''customers/cust_1/charges'')" and d' = "DstOther 42"]
  have p1n: "newRequest partialClient ''POST'' (''customers/'' @ ''cust_1'' @ ''/charges'') BodyNil (world s0_nat) =
      (Inr (''POST'', ''customers/cust_1/charges''), ())"
    by (simp add: partialClient_def stubClient_def)
  have p1p: "perform partialClient (''POST'', ''customers/cust_1/charges'') (DstOther 0) () =
      ((Some ''partial'', DstOther 42), ())"
    by (simp add: partialClient_def stubClient_def)
  have p1: "fst (ChargeCustomer (\<lambda>_. partialClient)
       (Some (zeroCustomer\<lparr>ID := ''cust_1'', Merchant := Some 1\<rparr>)) BodyNil (DstOther 0) s0_nat) =
      Returns (Some ''partial'', DstOther 42)"
    using partial p1n p1p by simp
  show ?thesis
    by (intro conjI) (fact r1n r1 r2n r2 r3n r3 r4n r4 r5n r5 r6n r6
      t1n t1p t1 t2n t2p t2 t3n t3p t3 t4n t4p t4 t5n t5p t5 t6n t6p t6 p1n p1p p1)+
qed

text \<open>
  Claim C9: in each of the six operations, when the collaborator's \<^verbatim>\<open>newRequest\<close>
  returns an error, \<^verbatim>\<open>perform\<close> is not called: the only call the operation adds to the
  trace is that \<^verbatim>\<open>newRequest\<close>, and the collaborator is left in the state in which
  \<^verbatim>\<open>newRequest\<close> returned.
\<close>

theorem newRequest_error_stops:
  "(newRequest (client m) ''POST'' ''customers'' (BodyCustomerArgs args) (world s) = (Inl e, w1) \<longrightarrow>
      snd (AddCustomer client (Some m) args s) =
        \<lparr>trace = trace s @ [NewRequest ''POST'' ''customers'' (BodyCustomerArgs args)],
         world = w1\<rparr>) \<and>
   (newRequest (client m) ''GET'' ''customers'' BodyNil (world s) = (Inl e, w1) \<longrightarrow>
      snd (GetCustomers client (Some m) s) =
        \<lparr>trace = trace s @ [NewRequest ''GET'' ''customers'' BodyNil], world = w1\<rparr>) \<and>
   (newRequest (client m) ''GET'' (''customers/'' @ id') BodyNil (world s) = (Inl e, w1) \<longrightarrow>
      snd (GetCustomer client (Some m) id' s) =
        \<lparr>trace = trace s @ [NewRequest ''GET'' (''customers/'' @ id') BodyNil], world = w1\<rparr>) \<and>
   (newRequest (client m) ''PUT'' (''customers/'' @ id') (BodyCustomer upd) (world s) = (Inl e, w1) \<longrightarrow>
      snd (UpdateCustomer client (Some m) id' upd s) =
        \<lparr>trace = trace s @ [NewRequest ''PUT'' (''customers/'' @ id') (BodyCustomer upd)],
         world = w1\<rparr>) \<and>
   (newRequest (client m) ''DELETE'' (''customers/'' @ id') BodyNil (world s) = (Inl e, w1) \<longrightarrow>
      snd (DeleteCustomer client (Some m) id' s) =
        \<lparr>trace = trace s @ [NewRequest ''DELETE'' (''customers/'' @ id') BodyNil],
         world = w1\<rparr>) \<and>
   (newRequest (client m) ''POST'' (''customers/'' @ ID c @ ''/charges'') data (world s) = (Inl e, w1) \<longrightarrow>
      snd (ChargeCustomer client (Some (c\<lparr>Merchant := Some m\<rparr>)) data d s) =
        \<lparr>trace = trace s @ [NewRequest ''POST'' (''customers/'' @ ID c @ ''/charges'') data],
         world = w1\<rparr>)"
proof (intro conjI impI)
  assume "newRequest (client m) ''POST'' ''customers'' (BodyCustomerArgs args) (world s) = (Inl e, w1)"
  then show "snd (AddCustomer client (Some m) args s) =
        \<lparr>trace = trace s @ [NewRequest ''POST'' ''customers'' (BodyCustomerArgs args)],
         world = w1\<rparr>"
    by (simp add: AddCustomer_def call_defs)
next
  assume "newRequest (client m) ''GET'' ''customers'' BodyNil (world s) = (Inl e, w1)"
  then show "snd (GetCustomers client (Some m) s) =
        \<lparr>trace = trace s @ [NewRequest ''GET'' ''customers'' BodyNil], world = w1\<rparr>"
    by (simp add: GetCustomers_def call_defs)
next
  assume "newRequest (client m) ''GET'' (''customers/'' @ id') BodyNil (world s) = (Inl e, w1)"
  then show "snd (GetCustomer client (Some m) id' s) =
        \<lparr>trace = trace s @ [NewRequest ''GET'' (''customers/'' @ id') BodyNil], world = w1\<rparr>"
    by (simp add: GetCustomer_def pco_newRequest_error)
next
  assume "newRequest (client m) ''PUT'' (''customers/'' @ id') (BodyCustomer upd) (world s) = (Inl e, w1)"
  then show "snd (UpdateCustomer client (Some m) id' upd s) =
        \<lparr>trace = trace s @ [NewRequest ''PUT'' (''customers/'' @ id') (BodyCustomer upd)],
         world = w1\<rparr>"
    by (simp add: UpdateCustomer_def pco_newRequest_error)
next
  assume "newRequest (client m) ''DELETE'' (''customers/'' @ id') BodyNil (world s) = (Inl e, w1)"
  then show "snd (DeleteCustomer client (Some m) id' s) =
        \<lparr>trace = trace s @ [NewRequest ''DELETE'' (''customers/'' @ id') BodyNil],
         world = w1\<rparr>"
    by (simp add: DeleteCustomer_def pco_newRequest_error)
next
  assume "newRequest (client m) ''POST'' (''customers/'' @ ID c @ ''/charges'') data (world s) = (Inl e, w1)"
  then show "snd (ChargeCustomer client (Some (c\<lparr>Merchant := Some m\<rparr>)) data d s) =
        \<lparr>trace = trace s @ [NewRequest ''POST'' (''customers/'' @ ID c @ ''/charges'') data],
         world = w1\<rparr>"
    by (simp add: ChargeCustomer_def pco_newRequest_error)
qed

text \<open>
  The six operations on a collaborator whose \<^verbatim>\<open>newRequest\<close> fails: one call each.
\<close>

theorem newRequest_error_stops_witness:
  "newRequest refusingClient ''POST'' ''customers'' (BodyCustomerArgs (Some anaArgs)) (world s0) =
     (Inl ''refused'', ()) \<and>
   snd (AddCustomer (\<lambda>_. refusingClient) (Some 1) (Some anaArgs) s0) =
     \<lparr>trace = [NewRequest ''POST'' ''customers'' (BodyCustomerArgs (Some anaArgs))], world = ()\<rparr> \<and>
   newRequest refusingClient ''GET'' ''customers'' BodyNil (world s0) =
     (Inl ''refused'', ()) \<and>
   snd (GetCustomers (\<lambda>_. refusingClient) (Some 1) s0) =
     \<lparr>trace = [NewRequest ''GET'' ''customers'' BodyNil], world = ()\<rparr> \<and>
   newRequest refusingClient ''GET'' (''customers/'' @ ''cust_1'') BodyNil (world s0) =
     (Inl ''refused'', ()) \<and>
   snd (GetCustomer (\<lambda>_. refusingClient) (Some 1) ''cust_1'' s0) =
     \<lparr>trace = [NewRequest ''GET'' ''customers/cust_1'' BodyNil], world = ()\<rparr> \<and>
   newRequest refusingClient ''PUT'' (''customers/'' @ ''cust_1'') (BodyCustomer (Some zeroCustomer)) (world s0) =
     (Inl ''refused'', ()) \<and>
   snd (UpdateCustomer (\<lambda>_. refusingClient) (Some 1) ''cust_1'' (Some zeroCustomer) s0) =
     \<lparr>trace = [NewRequest ''PUT'' ''customers/cust_1'' (BodyCustomer (Some zeroCustomer))], world = ()\<rparr> \<and>
   newRequest refusingClient ''DELETE'' (''customers/'' @ ''cust_1'') BodyNil (world s0) =
     (Inl ''refused'', ()) \<and>
   snd (DeleteCustomer (\<lambda>_. refusingClient) (Some 1) ''cust_1'' s0) =
     \<lparr>trace = [NewRequest ''DELETE'' ''customers/cust_1'' BodyNil], world = ()\<rparr> \<and>
   newRequest refusingClient ''POST'' (''customers/'' @ ''cust_1'' @ ''/charges'') BodyNil (world s0) =
     (Inl ''refused'', ()) \<and>
   snd (ChargeCustomer (\<lambda>_. refusingClient)
       (Some (zeroCustomer\<lparr>ID := ''cust_1'', Merchant := Some 1\<rparr>)) BodyNil DstNil s0) =
     \<lparr>trace = [NewRequest ''POST'' ''customers/cust_1/charges'' BodyNil], world = ()\<rparr>"
proof -
  note stops = newRequest_error_stops [where client = "\<lambda>_. refusingClient" and m = 1
      and s = s0 and e = "''refused''" and ?w1.0 = "()" and args = "Some anaArgs"
      and id' = "''cust_1''" and upd = "Some zeroCustomer"
      and c = "zeroCustomer\<lparr>ID := ''cust_1''\<rparr>" and data = BodyNil and d = DstNil]
  have r1n: "newRequest refusingClient ''POST'' ''customers'' (BodyCustomerArgs (Some anaArgs)) (world s0) =
      (Inl ''refused'', ())"
    by (simp add: refusingClient_def stubClient_def)
  have r1: "snd (AddCustomer (\<lambda>_. refusingClient) (Some 1) (Some anaArgs) s0) =
      \<lparr>trace = [NewRequest ''POST'' ''customers'' (BodyCustomerArgs (Some anaArgs))], world = ()\<rparr>"
    using stops r1n by (simp add: s0_def)
  have r2n: "newRequest refusingClient ''GET'' ''customers'' BodyNil (world s0) =
      (Inl ''refused'', ())"
    by (simp add: refusingClient_def stubClient_def)
  have r2: "snd (GetCustomers (\<lambda>_. refusingClient) (Some 1) s0) =
      \<lparr>trace = [NewRequest ''GET'' ''customers'' BodyNil], world = ()\<rparr>"
    using stops r2n by (simp add: s0_def)
  have r3n: "newRequest refusingClient ''GET'' (''customers/'' @ ''cust_1'') BodyNil (world s0) =
      (Inl ''refused'', ())"
    by (simp add: refusingClient_def stubClient_def)
  have r3: "snd (GetCustomer (\<lambda>_. refusingClient) (Some 1) ''cust_1'' s0) =
      \<lparr>trace = [NewRequest ''GET'' ''customers/cust_1'' BodyNil], world = ()\<rparr>"
    using stops r3n by (simp add: s0_def)
  have r4n: "newRequest refusingClient ''PUT'' (''customers/'' @ ''cust_1'') (BodyCustomer (Some zeroCustomer)) (world s0) =
      (Inl ''refused'', ())"
    by (simp add: refusingClient_def stubClient_def)
  have r4: "snd (UpdateCustomer (\<lambda>_. refusingClient) (Some 1) ''cust_1'' (Some zeroCustomer) s0) =
      \<lparr>trace = [NewRequest ''PUT'' ''customers/cust_1'' (BodyCustomer (Some zeroCustomer))], world = ()\<rparr>"
    using stops r4n by (simp add: s0_def)
  have r5n: "newRequest refusingClient ''DELETE'' (''customers/'' @ ''cust_1'') BodyNil (world s0) =
      (Inl ''refused'', ())"
    by (simp add: refusingClient_def stubClient_def)
  have r5: "snd (DeleteCustomer (\<lambda>_. refusingClient) (Some 1) ''cust_1'' s0) =
      \<lparr>trace = [NewRequest ''DELETE'' ''customers/cust_1'' BodyNil], world = ()\<rparr>"
    using stops r5n by (simp add: s0_def)
  have r6n: "newRequest refusingClient ''POST'' (''customers/'' @ ''cust_1'' @ ''/charges'') BodyNil (world s0) =
      (Inl ''refused'', ())"
    by (simp add: refusingClient_def stubClient_def)
  have r6: "snd (ChargeCustomer (\<lambda>_. refusingClient)
       (Some (zeroCustomer\<lparr>ID := ''cust_1'', Merchant := Some 1\<rparr>)) BodyNil DstNil s0) =
      \<lparr>trace = [NewRequest ''POST'' ''customers/cust_1/charges'' BodyNil], world = ()\<rparr>"
    using stops r6n by (simp add: s0_def)
  show ?thesis
    by (intro conjI) (fact r1n r1 r2n r2 r3n r3 r4n r4 r5n r5 r6n r6)+
qed

section \<open>The resource paths\<close>

text \<open>
  Claim C10 says that for every Customer with an empty ID ChargeCustomer issues its
  POST to \<^verbatim>\<open>customers//charges\<close>. The zero Customer has an empty ID and no Merchant:
  ChargeCustomer panics on it and makes no call to the collaborator at all.
\<close>

theorem ChargeCustomer_empty_ID_counterexample:
  "ID (zeroCustomer :: nat Customer) = [] \<and>
   ChargeCustomer (\<lambda>_. quietClient) (Some zeroCustomer) BodyNil DstNil s0 =
     (Panics NilPointerDereference, s0) \<and>
   trace (snd (ChargeCustomer (\<lambda>_. quietClient) (Some zeroCustomer) BodyNil DstNil s0)) = []"
  by (simp add: ChargeCustomer_def performCustomerOperation_def zeroCustomer_def s0_def)

text \<open>
  Claim C10 as amended: no operation checks or escapes the id; it is put into the path
  as it is, whatever string it is. For every id, GetCustomer, UpdateCustomer and
  DeleteCustomer build one request for the path \<^verbatim>\<open>customers/\<close> followed by the id, and
  ChargeCustomer on a Customer whose Merchant is set builds one POST, with the caller's
  data as the body, for \<^verbatim>\<open>customers/\<close>, the Customer's ID and \<^verbatim>\<open>/charges\<close>; the request
  the collaborator returns is performed at once (with the caller's destination, for
  ChargeCustomer), and these are all the calls made. With the empty id the paths are
  \<^verbatim>\<open>customers/\<close> and \<^verbatim>\<open>customers//charges\<close>. On a Customer with an empty ID whose
  Merchant is nil, ChargeCustomer panics before building any request.
\<close>

theorem id_interpolated_verbatim:
  "trace (snd (GetCustomer client (Some m) id' s)) =
     trace s @ NewRequest ''GET'' (''customers/'' @ id') BodyNil #
       (case fst (newRequest (client m) ''GET'' (''customers/'' @ id') BodyNil (world s)) of
          Inl e \<Rightarrow> [] | Inr req \<Rightarrow> [Perform req (DstCustomer zeroCustomer)]) \<and>
   trace (snd (UpdateCustomer client (Some m) id' upd s)) =
     trace s @ NewRequest ''PUT'' (''customers/'' @ id') (BodyCustomer upd) #
       (case fst (newRequest (client m) ''PUT'' (''customers/'' @ id') (BodyCustomer upd) (world s)) of
          Inl e \<Rightarrow> [] | Inr req \<Rightarrow> [Perform req (DstCustomer zeroCustomer)]) \<and>
   trace (snd (DeleteCustomer client (Some m) id' s)) =
     trace s @ NewRequest ''DELETE'' (''customers/'' @ id') BodyNil #
       (case fst (newRequest (client m) ''DELETE'' (''customers/'' @ id') BodyNil (world s)) of
          Inl e \<Rightarrow> [] | Inr req \<Rightarrow> [Perform req DstNil]) \<and>
   trace (snd (ChargeCustomer client (Some (c\<lparr>Merchant := Some m\<rparr>)) data d s)) =
     trace s @ NewRequest ''POST'' (''customers/'' @ ID c @ ''/charges'') data #
       (case fst (newRequest (client m) ''POST'' (''customers/'' @ ID c @ ''/charges'') data (world s)) of
          Inl e \<Rightarrow> [] | Inr req \<Rightarrow> [Perform req d]) \<and>
   trace (snd (GetCustomer client (Some m) [] s)) =
     trace s @ NewRequest ''GET'' ''customers/'' BodyNil #
       (case fst (newRequest (client m) ''GET'' ''customers/'' BodyNil (world s)) of
          Inl e \<Rightarrow> [] | Inr req \<Rightarrow> [Perform req (DstCustomer zeroCustomer)]) \<and>
   trace (snd (UpdateCustomer client (Some m) [] upd s)) =
     trace s @ NewRequest ''PUT'' ''customers/'' (BodyCustomer upd) #
       (case fst (newRequest (client m) ''PUT'' ''customers/'' (BodyCustomer upd) (world s)) of
          Inl e \<Rightarrow> [] | Inr req \<Rightarrow> [Perform req (DstCustomer zeroCustomer)]) \<and>
   trace (snd (DeleteCustomer client (Some m) [] s)) =
     trace s @ NewRequest ''DELETE'' ''customers/'' BodyNil #
       (case fst (newRequest (client m) ''DELETE'' ''customers/'' BodyNil (world s)) of
          Inl e \<Rightarrow> [] | Inr req \<Rightarrow> [Perform req DstNil]) \<and>
   trace (snd (ChargeCustomer client (Some (c\<lparr>ID := [], Merchant := Some m\<rparr>)) data d s)) =
     trace s @ NewRequest ''POST'' ''customers//charges'' data #
       (case fst (newRequest (client m) ''POST'' ''customers//charges'' data (world s)) of
          Inl e \<Rightarrow> [] | Inr req \<Rightarrow> [Perform req d]) \<and>
   ChargeCustomer client (Some (c\<lparr>ID := [], Merchant := None\<rparr>)) data d s =
     (Panics NilPointerDereference, s)"
proof -
  have get: "trace (snd (GetCustomer client (Some m) i s)) =
     trace s @ NewRequest ''GET'' (''customers/'' @ i) BodyNil #
       (case fst (newRequest (client m) ''GET'' (''customers/'' @ i) BodyNil (world s)) of
          Inl e \<Rightarrow> [] | Inr req \<Rightarrow> [Perform req (DstCustomer zeroCustomer)])" for i
    by (simp only: GetCustomer_trace pco_trace)
  have upd: "trace (snd (UpdateCustomer client (Some m) i upd s)) =
     trace s @ NewRequest ''PUT'' (''customers/'' @ i) (BodyCustomer upd) #
       (case fst (newRequest (client m) ''PUT'' (''customers/'' @ i) (BodyCustomer upd) (world s)) of
          Inl e \<Rightarrow> [] | Inr req \<Rightarrow> [Perform req (DstCustomer zeroCustomer)])" for i
    by (simp only: UpdateCustomer_trace pco_trace)
  have del: "trace (snd (DeleteCustomer client (Some m) i s)) =
     trace s @ NewRequest ''DELETE'' (''customers/'' @ i) BodyNil #
       (case fst (newRequest (client m) ''DELETE'' (''customers/'' @ i) BodyNil (world s)) of
          Inl e \<Rightarrow> [] | Inr req \<Rightarrow> [Perform req DstNil])" for i
    by (simp only: DeleteCustomer_trace pco_trace)
  have chg: "trace (snd (ChargeCustomer client (Some (k\<lparr>Merchant := Some m\<rparr>)) data d s)) =
     trace s @ NewRequest ''POST'' (''customers/'' @ ID k @ ''/charges'') data #
       (case fst (newRequest (client m) ''POST'' (''customers/'' @ ID k @ ''/charges'') data (world s)) of
          Inl e \<Rightarrow> [] | Inr req \<Rightarrow> [Perform req d])" for k
    by (simp add: ChargeCustomer_def pco_trace)
  have nil: "ChargeCustomer client (Some (c\<lparr>ID := [], Merchant := None\<rparr>)) data d s =
     (Panics NilPointerDereference, s)"
    by (simp add: ChargeCustomer_def pco_nil)
  show ?thesis
    using get [of id'] upd [of id'] del [of id'] chg [of c] get [of "[]"] upd [of "[]"]
      del [of "[]"] chg [of "c\<lparr>ID := []\<rparr>"] nil
    by simp
qed

section \<open>What the encoder writes for the request bodies\<close>

lemmas tag_defs = exported_def omitEmpty_def tagOptions_def jsonKey_def tagName_def
  validTagChar_def

lemma marshal_goAddress:
  "marshal (goAddress a) = JObject
     [(''line1'', JString (Line1 a)), (''line2'', JString (Line2 a)),
      (''line3'', JString (Line3 a)), (''postal_code'', JString (PostalCode a)),
      (''state'', JString (State a)), (''city'', JString (City a)),
      (''country_code'', JString (CountryCode a))]"
  by (simp add: goAddress_def tag_defs)

lemma marshal_goStoreReference:
  "marshal (goStoreReference r) = JObject
     [(''reference'', JString (Reference r)), (''barcode_url'', JString (BarcodeURL r)),
      (''paybin_reference'', JString (PaybinReference r)),
      (''barcode_paybin_url'', JString (BarcodePaybinURL r))]"
  by (simp add: goStoreReference_def tag_defs)

lemma marshal_goCustomer:
  "marshal (goCustomer merchantValue c) = JObject
     ((if ID c = [] then [] else [(''id'', JString (ID c))]) @
      [(''creation_date'', JTime (CreationDate c)),
       (''name'', JString (Name c)),
       (''last_name'', JString (LastName c)),
       (''email'', JString (Email c)),
       (''phone_number'', JString (PhoneNumber c)),
       (''status'', JString (Status c)),
       (''balance'', JNumber (Balance c)),
       (''clabe'', JString (CLABE c)),
       (''address'', marshal (goAddress (Address c))),
       (''store'', marshal (goStoreReference (Store c))),
       (''Merchant'',
          (case Merchant c of None \<Rightarrow> JNull | Some m \<Rightarrow> marshal (merchantValue m)))])"
  by (simp add: goCustomer_def tag_defs goAddress_def goStoreReference_def split: option.split)

lemma marshal_goCustomerArgs:
  "marshal (goCustomerArgs a) = JObject
     ((if ExternalID a = [] then [] else [(''external_id'', JString (ExternalID a))]) @
      [(''name'', JString (CustomerArgs.Name a))] @
      (if CustomerArgs.LastName a = [] then []
       else [(''last_name'', JString (CustomerArgs.LastName a))]) @
      [(''email'', JString (CustomerArgs.Email a)),
       (''requires_acount'', JBool (RequiresAccount a))] @
      (if CustomerArgs.PhoneNumber a = [] then []
       else [(''phone_number'', JString (CustomerArgs.PhoneNumber a))]) @
      [(''address'', marshal (goAddress (CustomerArgs.Address a)))])"
  by (simp add: goCustomerArgs_def tag_defs goAddress_def)

text \<open>
  Claim C2 says that the Merchant field of a Customer is never part of an encoded
  payload, and that the PUT body of UpdateCustomer has no Merchant member. The body
  UpdateCustomer hands to \<^verbatim>\<open>newRequest\<close> is the caller's Customer as it is, and the field
  \<^verbatim>\<open>Merchant\<close> has no \<^verbatim>\<open>json\<close> tag that would exclude it: the encoding of every Customer,
  whenever the encoder writes one, has the member \<^verbatim>\<open>Merchant\<close>. For
  \<^verbatim>\<open>Customer{Name: "Ana"}\<close> it is \<^verbatim>\<open>"Merchant":null\<close>.
\<close>

theorem UpdateCustomer_body_has_Merchant:
  "trace (snd (UpdateCustomer client (Some m) id' (Some c) s)) =
     trace s @ NewRequest ''PUT'' (''customers/'' @ id') (BodyCustomer (Some c)) #
       (case fst (newRequest (client m) ''PUT'' (''customers/'' @ id') (BodyCustomer (Some c))
                   (world s)) of
          Inl e \<Rightarrow> [] | Inr req \<Rightarrow> [Perform req (DstCustomer zeroCustomer)]) \<and>
   ''Merchant'' \<in> set (keys (marshal (goCustomer merchantValue c))) \<and>
   marshal (goCustomer merchantValue (zeroCustomer\<lparr>Name := ''Ana''\<rparr>)) = JObject
     [(''creation_date'', JTime zeroTime),
      (''name'', JString ''Ana''),
      (''last_name'', JString []),
      (''email'', JString []),
      (''phone_number'', JString []),
      (''status'', JString []),
      (''balance'', JNumber 0),
      (''clabe'', JString []),
      (''address'', JObject
         [(''line1'', JString []), (''line2'', JString []), (''line3'', JString []),
          (''postal_code'', JString []), (''state'', JString []), (''city'', JString []),
          (''country_code'', JString [])]),
      (''store'', JObject
         [(''reference'', JString []), (''barcode_url'', JString []),
          (''paybin_reference'', JString []), (''barcode_paybin_url'', JString [])]),
      (''Merchant'', JNull)]"
proof (intro conjI)
  show "trace (snd (UpdateCustomer client (Some m) id' (Some c) s)) =
     trace s @ NewRequest ''PUT'' (''customers/'' @ id') (BodyCustomer (Some c)) #
       (case fst (newRequest (client m) ''PUT'' (''customers/'' @ id') (BodyCustomer (Some c))
                   (world s)) of
          Inl e \<Rightarrow> [] | Inr req \<Rightarrow> [Perform req (DstCustomer zeroCustomer)])"
    by (simp only: UpdateCustomer_trace pco_trace)
next
  show "''Merchant'' \<in> set (keys (marshal (goCustomer merchantValue c)))"
    by (simp add: marshal_goCustomer keys_def members_def)
next
  show "marshal (goCustomer merchantValue (zeroCustomer\<lparr>Name := ''Ana''\<rparr>)) = JObject
     [(''creation_date'', JTime zeroTime),
      (''name'', JString ''Ana''),
      (''last_name'', JString []),
      (''email'', JString []),
      (''phone_number'', JString []),
      (''status'', JString []),
      (''balance'', JNumber 0),
      (''clabe'', JString []),
      (''address'', JObject
         [(''line1'', JString []), (''line2'', JString []), (''line3'', JString []),
          (''postal_code'', JString []), (''state'', JString []), (''city'', JString []),
          (''country_code'', JString [])]),
      (''store'', JObject
         [(''reference'', JString []), (''barcode_url'', JString []),
          (''paybin_reference'', JString []), (''barcode_paybin_url'', JString [])]),
      (''Merchant'', JNull)]"
    by (simp add: marshal_goCustomer marshal_goAddress marshal_goStoreReference
        zeroCustomer_def zeroAddress_def zeroStoreReference_def)
qed

text \<open>
  Claim C3 says that a CustomerArgs with only the required fields populated encodes
  without any of its optional fields. With \<open>ExternalID\<close>, \<open>LastName\<close> and \<open>PhoneNumber\<close>
  empty and the zero Address, the three strings are left out, but the member
  \<^verbatim>\<open>address\<close> is written, with seven empty strings: \<^verbatim>\<open>omitempty\<close> does nothing on a
  field of struct type.
\<close>

theorem CustomerArgs_required_only_encoding:
  "marshal (goCustomerArgs \<lparr>ExternalID = [], CustomerArgs.Name = n, CustomerArgs.LastName = [],
      CustomerArgs.Email = e, RequiresAccount = r, CustomerArgs.PhoneNumber = [],
      CustomerArgs.Address = zeroAddress\<rparr>) =
   JObject
     [(''name'', JString n), (''email'', JString e), (''requires_acount'', JBool r),
      (''address'', JObject
         [(''line1'', JString []), (''line2'', JString []), (''line3'', JString []),
          (''postal_code'', JString []), (''state'', JString []), (''city'', JString []),
          (''country_code'', JString [])])]"
  by (simp add: marshal_goCustomerArgs marshal_goAddress zeroAddress_def)

end
